theory Spec2Isabelle
  imports Complex_Main "HOL-Library.Sublist"
begin

section \<open>Python values\<close>

text \<open>
  A Python float is modelled as an exact real number or the not-a-number value.
  Rounding to binary64, overflow and the two infinities are outside this model: every
  statement below about a computed number is a statement about the formula the code
  evaluates, in exact arithmetic.
\<close>

datatype pyfloat = Fin real | NaN

fun isnan :: "pyfloat \<Rightarrow> bool" where
  "isnan NaN = True"
| "isnan (Fin _) = False"

fun fadd :: "pyfloat \<Rightarrow> pyfloat \<Rightarrow> pyfloat" where
  "fadd (Fin a) (Fin b) = Fin (a + b)"
| "fadd _ _ = NaN"

fun fsub :: "pyfloat \<Rightarrow> pyfloat \<Rightarrow> pyfloat" where
  "fsub (Fin a) (Fin b) = Fin (a - b)"
| "fsub _ _ = NaN"

fun fmul :: "pyfloat \<Rightarrow> pyfloat \<Rightarrow> pyfloat" where
  "fmul (Fin a) (Fin b) = Fin (a * b)"
| "fmul _ _ = NaN"

fun fabs :: "pyfloat \<Rightarrow> pyfloat" where
  "fabs (Fin a) = Fin \<bar>a\<bar>"
| "fabs NaN = NaN"

text \<open>The exceptions of the repository and the built-in ones its code meets. Each
  carries the text that \<open>str(exc)\<close> gives.\<close>

datatype exn =
    EPSCalcError string
  | NetIncomeCalcError string
  | EVARCalcError string
  | EarningsGrowthCalcError string
  | ValueError string
  | TypeError string
  | ZeroDivisionError string
  | AttributeError string
  | KeyError string
  | OverflowError string
  | OtherException string

fun str_exc :: "exn \<Rightarrow> string" where
  "str_exc (EPSCalcError m) = m"
| "str_exc (NetIncomeCalcError m) = m"
| "str_exc (EVARCalcError m) = m"
| "str_exc (EarningsGrowthCalcError m) = m"
| "str_exc (ValueError m) = m"
| "str_exc (TypeError m) = m"
| "str_exc (ZeroDivisionError m) = m"
| "str_exc (AttributeError m) = m"
| "str_exc (KeyError m) = m"
| "str_exc (OverflowError m) = m"
| "str_exc (OtherException m) = m"

text \<open>True division of two Python floats: a zero divisor raises, whatever the dividend.\<close>

definition py_truediv :: "pyfloat \<Rightarrow> pyfloat \<Rightarrow> exn + pyfloat" where
  "py_truediv a b =
     (if b = Fin 0 then Inl (ZeroDivisionError ''float division by zero'')
      else Inr (case (a, b) of (Fin x, Fin y) \<Rightarrow> Fin (x / y) | _ \<Rightarrow> NaN))"

section \<open>EarningsEngine: year-over-year growth\<close>

text \<open>The loop \<open>for i in range(0, n - 1)\<close> of \<open>calc_earnings_growth\<close>: one quotient per
  adjacent pair, appended in order; the first failing division ends the loop.\<close>

fun growth_loop :: "pyfloat list \<Rightarrow> exn + pyfloat list" where
  "growth_loop (x # y # rest) =
     (case py_truediv (fsub x y) (fabs y) of
        Inl e \<Rightarrow> Inl e
      | Inr g \<Rightarrow> (case growth_loop (y # rest) of Inl e \<Rightarrow> Inl e | Inr gs \<Rightarrow> Inr (g # gs)))"
| "growth_loop _ = Inr []"

text \<open>The body of the \<open>try\<close> block.\<close>

definition calc_earnings_growth_try :: "string \<Rightarrow> pyfloat list option \<Rightarrow> exn + pyfloat list" where
  "calc_earnings_growth_try ticker earnings_list =
     (case earnings_list of
        None \<Rightarrow> Inl (EarningsGrowthCalcError
          (''Cannot calculate Earnings Growth. No Earnings data available (Ticker: '' @ ticker @ '').''))
      | Some xs \<Rightarrow>
          if length xs < 2 then Inl (EarningsGrowthCalcError
            (''Not enough data to calculate Earnings Growth (Ticker: '' @ ticker
               @ ''). At least 2 periods are required.''))
          else growth_loop xs)"

text \<open>\<open>except Exception as exc\<close>: every exception of the body, its own included, is
  raised again as an \<open>EarningsGrowthCalcError\<close>.\<close>

definition calc_earnings_growth :: "string \<Rightarrow> pyfloat list option \<Rightarrow> exn + pyfloat list" where
  "calc_earnings_growth ticker earnings_list =
     (case calc_earnings_growth_try ticker earnings_list of
        Inl exc \<Rightarrow> Inl (EarningsGrowthCalcError
          (''Error calculating Earnings Growth for '' @ ticker @ '': '' @ str_exc exc))
      | Inr gs \<Rightarrow> Inr gs)"

text \<open>The growth of one period over the prior one as the specification writes it,
  \<open>(value_i - value_{i+1}) / abs(value_{i+1})\<close>, with a missing operand giving a missing
  result.\<close>

fun growth_formula :: "pyfloat \<Rightarrow> pyfloat \<Rightarrow> pyfloat" where
  "growth_formula (Fin a) (Fin b) = Fin ((a - b) / \<bar>b\<bar>)"
| "growth_formula _ _ = NaN"

section \<open>Strings and slices\<close>

text \<open>\<open>str.lower()\<close> on the ASCII letters; strings are byte strings here.\<close>

definition lower_char :: "char \<Rightarrow> char" where
  "lower_char c =
     (let n = (of_char c :: nat) in if 65 \<le> n \<and> n \<le> 90 then char_of (n + 32) else c)"

definition lower :: "string \<Rightarrow> string" where
  "lower s = map lower_char s"

text \<open>The decimal text of an integer, as an f-string prints it.\<close>

fun str_nat :: "nat \<Rightarrow> string" where
  "str_nat n =
     (if n < 10 then [char_of (48 + n)] else str_nat (n div 10) @ [char_of (48 + n mod 10)])"

declare str_nat.simps [simp del]

definition str_int :: "int \<Rightarrow> string" where
  "str_int i = (if i < 0 then ''-'' @ str_nat (nat (- i)) else str_nat (nat i))"

text \<open>The slice \<open>xs[:n]\<close>: the first \<open>n\<close> elements, and for a negative \<open>n\<close> all but the
  last \<open>-n\<close>.\<close>

definition py_prefix :: "int \<Rightarrow> 'a list \<Rightarrow> 'a list" where
  "py_prefix n xs =
     (if 0 \<le> n then take (nat n) xs else take (nat (int (length xs) + n)) xs)"

definition apostrophe :: string where
  "apostrophe = [CHR 0x27]"

definition newline :: string where
  "newline = [CHR 0x0A]"

section \<open>Numeric helpers of Python and numpy\<close>

text \<open>The built-in \<open>sum\<close>, which starts from \<open>0\<close>.\<close>

definition py_sum :: "pyfloat list \<Rightarrow> pyfloat" where
  "py_sum xs = foldl fadd (Fin 0) xs"

text \<open>Division of numpy scalars raises nothing. The quotient \<open>0 / 0\<close> is not a number;
  a non-zero value over zero is infinite in numpy, which this model does not have, and
  no division of the code modelled below has a zero divisor with a non-zero dividend.\<close>

fun np_div :: "pyfloat \<Rightarrow> pyfloat \<Rightarrow> pyfloat" where
  "np_div (Fin x) (Fin y) = (if y = 0 then NaN else Fin (x / y))"
| "np_div _ _ = NaN"

fun np_sqrt :: "pyfloat \<Rightarrow> pyfloat" where
  "np_sqrt (Fin x) = (if x < 0 then NaN else Fin (sqrt x))"
| "np_sqrt NaN = NaN"

definition np_mean :: "pyfloat list \<Rightarrow> pyfloat" where
  "np_mean xs = np_div (foldl fadd (Fin 0) xs) (Fin (real (length xs)))"

text \<open>\<open>ndarray.std(ddof=0)\<close>: the root of the mean of the squared absolute deviations.\<close>

definition np_std0 :: "pyfloat list \<Rightarrow> pyfloat" where
  "np_std0 xs =
     (let mu = np_mean xs
      in np_sqrt (np_mean (map (\<lambda>x. let d = fabs (fsub x mu) in fmul d d) xs)))"

text \<open>\<open>np.nanmean\<close> of one slice: the mean of the entries that are numbers, and not a
  number (with a warning, no exception) when there is none.\<close>

definition nanmean :: "pyfloat list \<Rightarrow> pyfloat" where
  "nanmean xs =
     (let vs = filter (\<lambda>x. \<not> isnan x) xs
      in if vs = [] then NaN else np_div (foldl fadd (Fin 0) vs) (Fin (real (length vs))))"

text \<open>\<open>np.vstack\<close> refuses an empty sequence of arrays.\<close>

definition np_vstack :: "pyfloat list list \<Rightarrow> exn + pyfloat list list" where
  "np_vstack rows =
     (if rows = [] then Inl (ValueError ''need at least one array to concatenate'')
      else Inr rows)"

text \<open>\<open>np.nanmean(m, axis=0)\<close> of a stacked matrix: one mean per column.\<close>

definition nanmean_axis0 :: "pyfloat list list \<Rightarrow> pyfloat list" where
  "nanmean_axis0 m =
     (case m of [] \<Rightarrow> []
      | r # _ \<Rightarrow> map (\<lambda>i. nanmean (map (\<lambda>row. row ! i) m)) [0..<length r])"

text \<open>What \<open>float(a)\<close> and \<open>math.isnan(a)\<close> do with an array argument: an array of one
  element stands for that element, any other size is a \<open>TypeError\<close>.\<close>

definition array_to_scalar :: "pyfloat list \<Rightarrow> exn + pyfloat" where
  "array_to_scalar a =
     (case a of [x] \<Rightarrow> Inr x
      | _ \<Rightarrow> Inl (TypeError ''only length-1 arrays can be converted to Python scalars''))"

text \<open>A dictionary filled key by key: a later value for a key replaces the earlier one.\<close>

definition dict_of :: "('k \<times> 'v) list \<Rightarrow> 'k \<rightharpoonup> 'v" where
  "dict_of kvs = foldl (\<lambda>m kv. m(fst kv \<mapsto> snd kv)) Map.empty kvs"

text \<open>A list of computations run in order; the first exception ends the run.\<close>

fun sequence_exn :: "(exn + 'a) list \<Rightarrow> exn + 'a list" where
  "sequence_exn [] = Inr []"
| "sequence_exn (c # cs) =
     (case c of Inl e \<Rightarrow> Inl e
      | Inr v \<Rightarrow> (case sequence_exn cs of Inl e \<Rightarrow> Inl e | Inr vs \<Rightarrow> Inr (v # vs)))"

section \<open>EarningsEngine: the data a ticker object gives\<close>

text \<open>A pandas frame as the code reads it after \<open>.T\<close>: the length of its index and its
  columns by label. \<open>DataFrame.empty\<close> holds when either axis has length zero.\<close>

record dataframe =
  df_rows :: nat
  df_columns :: "(string \<times> pyfloat list) list"

definition df_empty :: "dataframe \<Rightarrow> bool" where
  "df_empty df = (df_rows df = 0 \<or> df_columns df = [])"

definition df_column :: "dataframe \<Rightarrow> string \<Rightarrow> pyfloat list option" where
  "df_column df label = map_of (df_columns df) label"

text \<open>The yfinance ticker object. Its two statement properties fetch on access and
  may raise; both are modelled already transposed.\<close>

record yf_ticker =
  financials :: "exn + dataframe"
  quarterly_financials :: "exn + dataframe"

definition dropna :: "pyfloat list \<Rightarrow> pyfloat list" where
  "dropna xs = filter (\<lambda>x. \<not> isnan x) xs"

section \<open>EarningsEngine: get_net_income\<close>

definition get_net_income :: "yf_ticker \<Rightarrow> string \<Rightarrow> string \<Rightarrow> exn + pyfloat option" where
  "get_net_income stock ticker reporting_period =
     (if ''ttm'' = lower reporting_period then
        (case quarterly_financials stock of
           Inl e \<Rightarrow> Inl e
         | Inr income_statement_quart \<Rightarrow>
             (case df_column income_statement_quart ''Net Income'' of
                None \<Rightarrow> Inl (ValueError
                  (''Cannot calculate Net Income TTM! Net Income data is missing in the Quarterly Income Statement (Ticker: ''
                     @ ticker @ '').''))
              | Some col \<Rightarrow>
                  (let net_income_list = dropna col
                   in if length net_income_list < 4 then Inl (ValueError
                        (''Cannot calculate Net Income TTM! Not enough Net Income Quarterly data is available (Ticker: ''
                           @ ticker @ ''). '' @ newline @ '' Data for at least 4 quarters is required .''))
                      else Inr (Some (py_sum (take 4 net_income_list))))))
      else if ''annual'' = lower reporting_period then
        (case financials stock of
           Inl e \<Rightarrow> Inl e
         | Inr income_statement_annual \<Rightarrow>
             (case df_column income_statement_annual ''Net Income'' of
                None \<Rightarrow> Inl (ValueError
                  (''Cannot fetch Annual Net Income! Net Income data is missing in the Annual Income Statement (Ticker: ''
                     @ ticker @ '').''))
              | Some col \<Rightarrow>
                  (case dropna col of
                     [] \<Rightarrow> Inl (ValueError
                       (''Cannot fetch Annual Net Income! No Net Income annual data is available in the Annual Income Statement (Ticker: ''
                          @ ticker @ ''). '' @ newline @ '' Data for at least 1 year is required .''))
                   | x # _ \<Rightarrow> Inr (Some x))))
      else Inr None)"

section \<open>EarningsEngine: calc_eps_ttm\<close>

definition calc_eps_ttm_try :: "yf_ticker \<Rightarrow> string \<Rightarrow> int \<Rightarrow> exn + pyfloat" where
  "calc_eps_ttm_try stock ticker trailing_eps_quarters =
     (case quarterly_financials stock of
        Inl e \<Rightarrow> Inl e
      | Inr income_statement \<Rightarrow>
          (case df_column income_statement ''Basic EPS'' of
             None \<Rightarrow> Inl (EPSCalcError
               (''Cannot calculate Trailing EPS! EPS data is missing (Ticker: '' @ ticker @ '').''))
           | Some col \<Rightarrow>
               (let basic_eps_list = dropna col
                in if int (length basic_eps_list) < trailing_eps_quarters then Inl (EPSCalcError
                     (''Cannot calculate Trailing EPS! Not enough EPS data for the last ''
                        @ str_int trailing_eps_quarters @ '' quarters (Ticker: '' @ ticker @ '').''))
                   else Inr (py_sum (py_prefix trailing_eps_quarters basic_eps_list)))))"

text \<open>Only a \<open>KeyError\<close> is caught; every other exception leaves the function as it is.\<close>

definition calc_eps_ttm :: "yf_ticker \<Rightarrow> string \<Rightarrow> int \<Rightarrow> exn + pyfloat" where
  "calc_eps_ttm stock ticker trailing_eps_quarters =
     (case calc_eps_ttm_try stock ticker trailing_eps_quarters of
        Inl (KeyError m) \<Rightarrow> Inl (EPSCalcError
          (''Cannot calculate Trailing EPS! EPS data is not available (Ticker: '' @ ticker @ '').''))
      | r \<Rightarrow> r)"

section \<open>EarningsEngine: get_earnings\<close>

text \<open>The secondary source, \<open>fetch_earnings_alpha_vantage\<close>, lives in a module that is not
  part of the sources at hand. It is a parameter here: a function of the five arguments
  of the call that raises, returns \<open>None\<close> or returns a series. Every call made is
  recorded, so that "the secondary source is not consulted" is a statement about the
  record of calls.\<close>

record av_request =
  av_api_key :: string
  av_base_url :: string
  av_ticker :: string
  av_earnings_type :: string
  av_period :: string

type_synonym av_source = "av_request \<Rightarrow> exn + pyfloat list option"

text \<open>The steps from the removal of the missing values to the choice of the series. The
  source writes them twice, once under \<open>"eps"\<close> and once under \<open>"net_income"\<close>, with the
  same statements and other variable names.\<close>

definition reconcile ::
  "av_source \<Rightarrow> av_request \<Rightarrow> int \<Rightarrow> pyfloat list \<Rightarrow> (exn + pyfloat list option) \<times> av_request list" where
  "reconcile fetch req earnings_period_req series_yf =
     (let annual_yf = dropna series_yf
      in if int (length annual_yf) \<ge> earnings_period_req
         then (Inr (Some (py_prefix earnings_period_req annual_yf)), [])
         else
           (case fetch req of
              Inl e \<Rightarrow> (Inl e, [req])
            | Inr None \<Rightarrow> (Inr (Some annual_yf), [req])
            | Inr (Some series_av) \<Rightarrow>
                (let annual_av = dropna series_av
                 in if length annual_av > length annual_yf
                    then (if int (length annual_av) \<ge> earnings_period_req
                          then (Inr (Some (py_prefix earnings_period_req annual_av)), [req])
                          else (Inr (Some (py_prefix (int (length annual_av)) annual_av)), [req]))
                    else (Inr (Some annual_yf), [req]))))"

definition get_earnings_try ::
  "av_source \<Rightarrow> yf_ticker \<Rightarrow> string \<Rightarrow> string \<Rightarrow> int \<Rightarrow> string \<Rightarrow> string
     \<Rightarrow> (exn + pyfloat list option) \<times> av_request list" where
  "get_earnings_try fetch stock ticker earnings_type earnings_period_req api_key base_url =
     (case financials stock of
        Inl e \<Rightarrow> (Inl e, [])
      | Inr income_statement_annual \<Rightarrow>
          if df_empty income_statement_annual then
            (Inl (NetIncomeCalcError
               (''No Annual Income Statement data found on Yahoo Finance (Ticker: '' @ ticker @ '').'')), [])
          else if earnings_type = ''eps'' then
            (case df_column income_statement_annual ''Basic EPS'' of
               Some col \<Rightarrow>
                 reconcile fetch
                   \<lparr>av_api_key = api_key, av_base_url = base_url, av_ticker = ticker,
                    av_earnings_type = ''eps'', av_period = ''annual''\<rparr>
                   earnings_period_req col
             | None \<Rightarrow>
                 (Inl (EPSCalcError
                    (''Cannot find '' @ apostrophe @ ''Basic EPS'' @ apostrophe @ '' data for ''
                       @ ticker @ ''.'')), []))
          else if earnings_type = ''net_income'' then
            (case df_column income_statement_annual ''Net Income'' of
               Some col \<Rightarrow>
                 reconcile fetch
                   \<lparr>av_api_key = api_key, av_base_url = base_url, av_ticker = ticker,
                    av_earnings_type = ''net_income'', av_period = ''annual''\<rparr>
                   earnings_period_req col
             | None \<Rightarrow>
                 (Inl (NetIncomeCalcError
                    (''Cannot find '' @ apostrophe @ ''Net Income'' @ apostrophe @ '' data for ''
                       @ ticker @ ''.'')), []))
          else (Inr None, []))"

text \<open>\<open>except Exception as exc: raise NetIncomeCalcError(...)\<close>: whatever the body raises,
  the caller receives a \<open>NetIncomeCalcError\<close>.\<close>

definition get_earnings ::
  "av_source \<Rightarrow> yf_ticker \<Rightarrow> string \<Rightarrow> string \<Rightarrow> int \<Rightarrow> string \<Rightarrow> string
     \<Rightarrow> (exn + pyfloat list option) \<times> av_request list" where
  "get_earnings fetch stock ticker earnings_type earnings_period_req api_key base_url =
     (case get_earnings_try fetch stock ticker earnings_type earnings_period_req api_key base_url of
        (Inl exc, calls) \<Rightarrow>
          (Inl (NetIncomeCalcError
             (''Error fetching Earnings ('' @ ticker @ ''): '' @ str_exc exc)), calls)
      | (Inr v, calls) \<Rightarrow> (Inr v, calls))"

section \<open>EarningsEngine: calc_evar\<close>

text \<open>The body of the \<open>try\<close> block: the mean, the loop that adds the squared deviations,
  the division by \<open>n - 1\<close> and the root. All of it is numpy arithmetic.\<close>

definition calc_evar_try :: "pyfloat list \<Rightarrow> exn + pyfloat" where
  "calc_evar_try earnings_growths_yoy =
     (let mean_earnings_growth = np_mean earnings_growths_yoy;
          earnings_variance_sum =
            foldl (\<lambda>acc earnings_growth.
                     fadd acc (let d = fsub earnings_growth mean_earnings_growth in fmul d d))
                  (Fin 0) earnings_growths_yoy;
          variance = np_div earnings_variance_sum (Fin (real (length earnings_growths_yoy) - 1))
      in Inr (np_sqrt variance))"

definition calc_evar :: "string \<Rightarrow> pyfloat list option \<Rightarrow> exn + pyfloat" where
  "calc_evar ticker earnings_growths_yoy =
     (case earnings_growths_yoy of
        None \<Rightarrow> Inl (EVARCalcError
          (''Cannot calculcate EVAR. No Earnings Growth data available (Ticker: '' @ ticker @ '').''))
      | Some gs \<Rightarrow>
          if length gs < 2 then Inl (EVARCalcError
            (''Not enough Earnings Growth data to calculate EVAR for '' @ ticker
               @ ''. At least 2 data points are required.''))
          else
            (case calc_evar_try gs of
               Inl exc \<Rightarrow> Inl (EVARCalcError
                 (''Error calculating EVAR for '' @ ticker @ '': '' @ str_exc exc))
             | Inr v \<Rightarrow> Inr v))"

text \<open>The sample standard deviation as the specification writes it,
  \<open>sqrt(\<Sum>(g_i - mean(g))\<^sup>2 / (n - 1))\<close>, over real numbers.\<close>

definition mean_spec :: "real list \<Rightarrow> real" where
  "mean_spec gs = sum_list gs / real (length gs)"

definition sample_std_spec :: "real list \<Rightarrow> real" where
  "sample_std_spec gs =
     sqrt ((\<Sum>g\<leftarrow>gs. (g - mean_spec gs)\<^sup>2) / (real (length gs) - 1))"

text \<open>The observations of a series that are numbers, as real numbers and in order.\<close>

fun valid_values :: "pyfloat list \<Rightarrow> real list" where
  "valid_values [] = []"
| "valid_values (Fin v # xs) = v # valid_values xs"
| "valid_values (NaN # xs) = valid_values xs"

text \<open>A secondary source that has no data for any request.\<close>

definition av_no_data :: av_source where
  "av_no_data req = Inr None"

section \<open>Scenarios of the specification\<close>

text \<open>Scenario A: quarterly values \<open>[1.0, 1.1, 0.9, 1.0, 0.8]\<close>, most recent first, under
  both field names; and a ticker with three quarters only, one of them missing.\<close>

definition scenario_a_frame :: dataframe where
  "scenario_a_frame =
     \<lparr>df_rows = 5,
      df_columns =
        [(''Basic EPS'', [Fin 1, Fin (11 / 10), Fin (9 / 10), Fin 1, Fin (8 / 10)]),
         (''Net Income'', [Fin 1, Fin (11 / 10), Fin (9 / 10), Fin 1, Fin (8 / 10)])]\<rparr>"

definition scenario_a_stock :: yf_ticker where
  "scenario_a_stock =
     \<lparr>financials = Inl (OtherException ''not fetched''),
      quarterly_financials = Inr scenario_a_frame\<rparr>"

definition short_frame :: dataframe where
  "short_frame =
     \<lparr>df_rows = 4,
      df_columns =
        [(''Basic EPS'', [Fin 1, NaN, Fin 2, Fin 3]),
         (''Net Income'', [Fin 1, NaN, Fin 2, Fin 3])]\<rparr>"

definition short_stock :: yf_ticker where
  "short_stock =
     \<lparr>financials = Inl (OtherException ''not fetched''),
      quarterly_financials = Inr short_frame\<rparr>"

section \<open>Verified properties\<close>

subsection \<open>Messages that name the ticker\<close>

lemma sublist_self_append: "sublist t (t @ b)"
  using sublist_appendI [of t "[]" b] by simp

lemma sublist_append_right: "sublist a ys \<Longrightarrow> sublist a (xs @ ys)"
  unfolding sublist_def by (metis append.assoc)

lemmas names_ticker = sublist_self_append sublist_Cons_right

lemmas names_text = sublist_self_append sublist_Cons_right sublist_append_right

subsection \<open>Year-over-year growth\<close>

lemma py_truediv_growth:
  "Fin 0 \<noteq> y \<Longrightarrow> py_truediv (fsub x y) (fabs y) = Inr (growth_formula x y)"
  by (cases x; cases y) (auto simp add: py_truediv_def)

lemma growth_loop_ok:
  "Fin 0 \<notin> set (tl xs) \<Longrightarrow> growth_loop xs = Inr (map2 growth_formula xs (tl xs))"
proof (induction xs rule: growth_loop.induct)
  case (1 x y rest)
  then show ?case by (simp add: py_truediv_growth)
qed simp_all

lemma growth_loop_fail:
  "Fin 0 \<in> set (tl xs) \<Longrightarrow> growth_loop xs = Inl (ZeroDivisionError ''float division by zero'')"
proof (induction xs rule: growth_loop.induct)
  case (1 x y rest)
  show ?case
  proof (cases "y = Fin 0")
    case True
    then show ?thesis by (simp add: py_truediv_def)
  next
    case False
    then have "Fin 0 \<noteq> y" by simp
    with 1 show ?thesis by (auto simp add: py_truediv_growth)
  qed
qed simp_all

text \<open>
  Claim C4, as amended. For an earnings list of length \<open>L\<close>: when \<open>L < 2\<close>,
  \<open>calc_earnings_growth\<close> raises an \<open>EarningsGrowthCalcError\<close> whose message names the
  ticker; when \<open>L \<ge> 2\<close> and no prior-period value (no value after the first) is zero, it
  returns a list of exactly \<open>L - 1\<close> growth values in the same order, the \<open>i\<close>-th being
  \<open>(value_i - value_{i+1}) / abs(value_{i+1})\<close>; when \<open>L \<ge> 2\<close> and some prior-period value
  is zero, the division fails and the failure is raised as an \<open>EarningsGrowthCalcError\<close>
  naming the ticker. The input \<open>[2.0, -1.0]\<close> gives \<open>[3.0]\<close>.
\<close>

theorem calc_earnings_growth_contract:
  fixes xs :: "pyfloat list"
  shows
  "(length xs < 2 \<longrightarrow>
      (\<exists>m. calc_earnings_growth ticker (Some xs) = Inl (EarningsGrowthCalcError m) \<and> sublist ticker m))
   \<and> (2 \<le> length xs \<and> (\<forall>i. 1 \<le> i \<and> i < length xs \<longrightarrow> xs ! i \<noteq> Fin 0) \<longrightarrow>
      (\<exists>gs. calc_earnings_growth ticker (Some xs) = Inr gs \<and> length gs = length xs - 1
         \<and> (\<forall>i < length xs - 1. gs ! i = growth_formula (xs ! i) (xs ! (i + 1)))))
   \<and> (2 \<le> length xs \<and> (\<exists>i. 1 \<le> i \<and> i < length xs \<and> xs ! i = Fin 0) \<longrightarrow>
      (\<exists>m. calc_earnings_growth ticker (Some xs) = Inl (EarningsGrowthCalcError m) \<and> sublist ticker m))
   \<and> calc_earnings_growth ticker (Some [Fin 2, Fin (- 1)]) = Inr [Fin 3]"
proof (intro conjI impI)
  assume "length xs < 2"
  then show "\<exists>m. calc_earnings_growth ticker (Some xs) = Inl (EarningsGrowthCalcError m) \<and> sublist ticker m"
    by (simp add: calc_earnings_growth_def calc_earnings_growth_try_def names_ticker)
next
  assume a: "2 \<le> length xs \<and> (\<forall>i. 1 \<le> i \<and> i < length xs \<longrightarrow> xs ! i \<noteq> Fin 0)"
  have "Fin 0 \<notin> set (tl xs)"
  proof
    assume "Fin 0 \<in> set (tl xs)"
    then obtain j where "j < length (tl xs)" "tl xs ! j = Fin 0"
      by (auto simp: in_set_conv_nth)
    then have "Suc j < length xs" "xs ! Suc j = Fin 0"
      by (auto simp: nth_tl)
    with a show False by auto
  qed
  then have g: "growth_loop xs = Inr (map2 growth_formula xs (tl xs))"
    by (rule growth_loop_ok)
  have "\<forall>i < length xs - 1. map2 growth_formula xs (tl xs) ! i = growth_formula (xs ! i) (xs ! (i + 1))"
    by (auto simp: nth_tl)
  with a g show "\<exists>gs. calc_earnings_growth ticker (Some xs) = Inr gs \<and> length gs = length xs - 1
         \<and> (\<forall>i < length xs - 1. gs ! i = growth_formula (xs ! i) (xs ! (i + 1)))"
    by (simp add: calc_earnings_growth_def calc_earnings_growth_try_def)
next
  assume a: "2 \<le> length xs \<and> (\<exists>i. 1 \<le> i \<and> i < length xs \<and> xs ! i = Fin 0)"
  then obtain i where i: "1 \<le> i" "i < length xs" "xs ! i = Fin 0" by blast
  then have "tl xs ! (i - 1) = Fin 0" "i - 1 < length (tl xs)"
    by (auto simp: nth_tl)
  then have "Fin 0 \<in> set (tl xs)"
    by (metis nth_mem)
  then have "growth_loop xs = Inl (ZeroDivisionError ''float division by zero'')"
    by (rule growth_loop_fail)
  with a show "\<exists>m. calc_earnings_growth ticker (Some xs) = Inl (EarningsGrowthCalcError m) \<and> sublist ticker m"
    by (simp add: calc_earnings_growth_def calc_earnings_growth_try_def names_ticker)
next
  show "calc_earnings_growth ticker (Some [Fin 2, Fin (- 1)]) = Inr [Fin 3]"
    by (simp add: calc_earnings_growth_def calc_earnings_growth_try_def py_truediv_def)
qed

theorem calc_earnings_growth_contract_witness:
  "length [Fin 5] < 2
   \<and> (\<exists>m. calc_earnings_growth ''ACME'' (Some [Fin 5]) = Inl (EarningsGrowthCalcError m)
        \<and> sublist ''ACME'' m)
   \<and> 2 \<le> length [Fin 6, Fin 4, Fin (- 2)]
   \<and> (\<exists>gs. calc_earnings_growth ''ACME'' (Some [Fin 6, Fin 4, Fin (- 2)]) = Inr gs
        \<and> length gs = 2 \<and> gs ! 0 = Fin (1 / 2) \<and> gs ! 1 = Fin 3)
   \<and> [Fin 1, Fin 0] ! 1 = Fin 0
   \<and> (\<exists>m. calc_earnings_growth ''ACME'' (Some [Fin 1, Fin 0]) = Inl (EarningsGrowthCalcError m)
        \<and> sublist ''ACME'' m)"
proof -
  have short: "length [Fin 5] < 2" by simp
  have h: "2 \<le> length [Fin 6, Fin 4, Fin (- 2)]
      \<and> (\<forall>i. 1 \<le> i \<and> i < length [Fin 6, Fin 4, Fin (- 2)]
            \<longrightarrow> [Fin 6, Fin 4, Fin (- 2)] ! i \<noteq> Fin 0)"
    by (auto simp: nth_Cons')
  have z: "2 \<le> length [Fin 1, Fin 0]
      \<and> (\<exists>i. 1 \<le> i \<and> i < length [Fin 1, Fin 0] \<and> [Fin 1, Fin 0] ! i = Fin 0)"
    by (auto intro: exI [of _ 1])
  from calc_earnings_growth_contract [of "[Fin 5]" "''ACME''"] short
  have c1: "\<exists>m. calc_earnings_growth ''ACME'' (Some [Fin 5]) = Inl (EarningsGrowthCalcError m)
        \<and> sublist ''ACME'' m"
    by blast
  from calc_earnings_growth_contract [of "[Fin 6, Fin 4, Fin (- 2)]" "''ACME''"] h
  obtain gs where gs: "calc_earnings_growth ''ACME'' (Some [Fin 6, Fin 4, Fin (- 2)]) = Inr gs"
      "length gs = length [Fin 6, Fin 4, Fin (- 2)] - 1"
      "\<forall>i < length [Fin 6, Fin 4, Fin (- 2)] - 1.
          gs ! i = growth_formula ([Fin 6, Fin 4, Fin (- 2)] ! i) ([Fin 6, Fin 4, Fin (- 2)] ! (i + 1))"
    by blast
  from gs(3) have "gs ! 0 = Fin (1 / 2)" "gs ! 1 = Fin 3"
    by simp_all
  with gs have c2: "\<exists>gs. calc_earnings_growth ''ACME'' (Some [Fin 6, Fin 4, Fin (- 2)]) = Inr gs
        \<and> length gs = 2 \<and> gs ! 0 = Fin (1 / 2) \<and> gs ! 1 = Fin 3"
    by simp
  from calc_earnings_growth_contract [of "[Fin 1, Fin 0]" "''ACME''"] z
  have c3: "\<exists>m. calc_earnings_growth ''ACME'' (Some [Fin 1, Fin 0]) = Inl (EarningsGrowthCalcError m)
        \<and> sublist ''ACME'' m"
    by blast
  from short c1 h c2 c3 show ?thesis by simp
qed

text \<open>The claim as written promises a growth list for every list of two or more values;
  with a zero prior-period value the code raises instead.\<close>

theorem calc_earnings_growth_zero_prior:
  "\<not> length [Fin 1, Fin 0] < 2 \<and>
   calc_earnings_growth ''ACME'' (Some [Fin 1, Fin 0]) =
     Inl (EarningsGrowthCalcError ''Error calculating Earnings Growth for ACME: float division by zero'')"
  by (simp add: calc_earnings_growth_def calc_earnings_growth_try_def py_truediv_def)

subsection \<open>Series without missing values\<close>

lemma foldl_fadd_Fin: "foldl fadd (Fin a) (map Fin rs) = Fin (a + sum_list rs)"
  by (induction rs arbitrary: a) (simp_all add: add.assoc)

lemma py_sum_Fin: "py_sum (map Fin rs) = Fin (sum_list rs)"
  by (simp add: py_sum_def foldl_fadd_Fin)

lemma dropna_valid_values: "dropna xs = map Fin (valid_values xs)"
  by (induction xs rule: valid_values.induct) (simp_all add: dropna_def)

lemma length_dropna: "length (dropna xs) = length (valid_values xs)"
  by (simp add: dropna_valid_values)

lemma str_int_4: "str_int 4 = ''4''"
  by code_simp

lemma lower_TTM: "lower ''TTM'' = ''ttm''"
  by code_simp

lemma lower_Quarterly: "lower ''Quarterly'' = ''quarterly''"
  by code_simp

subsection \<open>Net income for an unsupported reporting period\<close>

text \<open>
  Claim C10. For every stock and ticker, \<open>get_net_income\<close> called with a reporting period
  whose lower-cased text is neither \<open>ttm\<close> nor \<open>annual\<close> returns \<open>None\<close>: it raises nothing
  and does not read the financial data of the stock, so it returns \<open>None\<close> also for a stock
  whose data cannot be read at all.
\<close>

theorem get_net_income_other_period:
  "lower reporting_period \<noteq> ''ttm'' \<Longrightarrow> lower reporting_period \<noteq> ''annual''
     \<Longrightarrow> get_net_income stock ticker reporting_period = Inr None"
  by (auto simp add: get_net_income_def)

theorem get_net_income_other_period_witness:
  "lower ''Quarterly'' \<noteq> ''ttm'' \<and> lower ''Quarterly'' \<noteq> ''annual''
   \<and> get_net_income
        \<lparr>financials = Inl (OtherException ''no connection''),
         quarterly_financials = Inl (OtherException ''no connection'')\<rparr>
        ''ACME'' ''Quarterly'' = Inr None"
proof -
  have a: "lower ''Quarterly'' \<noteq> ''ttm''" and b: "lower ''Quarterly'' \<noteq> ''annual''"
    by (simp_all add: lower_Quarterly)
  from get_net_income_other_period [OF a b] a b show ?thesis by simp
qed

subsection \<open>Trailing twelve months\<close>

text \<open>
  Claim C7. For every quarterly series of a ticker, under the field \<open>Basic EPS\<close> for
  \<open>calc_eps_ttm\<close> (with its four trailing quarters) and under \<open>Net Income\<close> for
  \<open>get_net_income\<close> with period \<open>TTM\<close>: when the series has four or more observations that
  are numbers, the result is the sum of the four most recent of them; when it has fewer,
  an error is raised whose message names the ticker and the figure 4, the number of
  quarters required. Scenario A, \<open>[1.0, 1.1, 0.9, 1.0, 0.8]\<close>, gives \<open>4.0\<close>.
\<close>

theorem ttm_contract:
  assumes "quarterly_financials stock = Inr df"
  shows
  "(df_column df ''Basic EPS'' = Some qs \<longrightarrow>
      (4 \<le> length (valid_values qs) \<longrightarrow>
         calc_eps_ttm stock ticker 4 = Inr (Fin (sum_list (take 4 (valid_values qs)))))
    \<and> (length (valid_values qs) < 4 \<longrightarrow>
         (\<exists>m. calc_eps_ttm stock ticker 4 = Inl (EPSCalcError m)
            \<and> sublist ticker m \<and> sublist ''4'' m)))
   \<and> (df_column df ''Net Income'' = Some qs \<longrightarrow>
      (4 \<le> length (valid_values qs) \<longrightarrow>
         get_net_income stock ticker ''TTM'' = Inr (Some (Fin (sum_list (take 4 (valid_values qs))))))
    \<and> (length (valid_values qs) < 4 \<longrightarrow>
         (\<exists>m. get_net_income stock ticker ''TTM'' = Inl (ValueError m)
            \<and> sublist ticker m \<and> sublist ''4'' m)))"
proof (intro conjI impI)
  assume c: "df_column df ''Basic EPS'' = Some qs" and l: "4 \<le> length (valid_values qs)"
  have "py_sum (py_prefix 4 (dropna qs)) = Fin (sum_list (take 4 (valid_values qs)))"
    by (simp add: py_prefix_def dropna_valid_values take_map py_sum_Fin)
  with assms c l show "calc_eps_ttm stock ticker 4 = Inr (Fin (sum_list (take 4 (valid_values qs))))"
    by (simp add: calc_eps_ttm_def calc_eps_ttm_try_def length_dropna)
next
  assume c: "df_column df ''Basic EPS'' = Some qs" and l: "length (valid_values qs) < 4"
  with assms show "\<exists>m. calc_eps_ttm stock ticker 4 = Inl (EPSCalcError m)
            \<and> sublist ticker m \<and> sublist ''4'' m"
    by (simp add: calc_eps_ttm_def calc_eps_ttm_try_def length_dropna str_int_4 names_ticker)
next
  assume c: "df_column df ''Net Income'' = Some qs" and l: "4 \<le> length (valid_values qs)"
  have "py_sum (take 4 (dropna qs)) = Fin (sum_list (take 4 (valid_values qs)))"
    by (simp add: dropna_valid_values take_map py_sum_Fin)
  with assms c l show "get_net_income stock ticker ''TTM'' = Inr (Some (Fin (sum_list (take 4 (valid_values qs)))))"
    by (simp add: get_net_income_def lower_TTM length_dropna)
next
  assume c: "df_column df ''Net Income'' = Some qs" and l: "length (valid_values qs) < 4"
  with assms show "\<exists>m. get_net_income stock ticker ''TTM'' = Inl (ValueError m)
            \<and> sublist ticker m \<and> sublist ''4'' m"
    by (simp add: get_net_income_def lower_TTM length_dropna newline_def names_text)
qed

theorem ttm_contract_witness:
  "quarterly_financials scenario_a_stock = Inr scenario_a_frame
   \<and> calc_eps_ttm scenario_a_stock ''ACME'' 4 = Inr (Fin 4)
   \<and> get_net_income scenario_a_stock ''ACME'' ''TTM'' = Inr (Some (Fin 4))
   \<and> quarterly_financials short_stock = Inr short_frame
   \<and> (\<exists>m. calc_eps_ttm short_stock ''ACME'' 4 = Inl (EPSCalcError m)
        \<and> sublist ''ACME'' m \<and> sublist ''4'' m)
   \<and> (\<exists>m. get_net_income short_stock ''ACME'' ''TTM'' = Inl (ValueError m)
        \<and> sublist ''ACME'' m \<and> sublist ''4'' m)"
proof -
  let ?qs = "[Fin 1, Fin (11 / 10), Fin (9 / 10), Fin 1, Fin (8 / 10)]"
  let ?short = "[Fin 1, NaN, Fin 2, Fin 3]"
  have a: "quarterly_financials scenario_a_stock = Inr scenario_a_frame"
    by (simp add: scenario_a_stock_def)
  have b: "quarterly_financials short_stock = Inr short_frame"
    by (simp add: short_stock_def)
  have ca: "df_column scenario_a_frame ''Basic EPS'' = Some ?qs"
       "df_column scenario_a_frame ''Net Income'' = Some ?qs"
    by (simp_all add: scenario_a_frame_def df_column_def)
  have cb: "df_column short_frame ''Basic EPS'' = Some ?short"
       "df_column short_frame ''Net Income'' = Some ?short"
    by (simp_all add: short_frame_def df_column_def)
  have va: "4 \<le> length (valid_values ?qs)" "sum_list (take 4 (valid_values ?qs)) = 4"
    by simp_all
  have vb: "length (valid_values ?short) < 4"
    by simp
  from ttm_contract [OF a, of ?qs "''ACME''"] ca va
  have r1: "calc_eps_ttm scenario_a_stock ''ACME'' 4 = Inr (Fin 4)"
       "get_net_income scenario_a_stock ''ACME'' ''TTM'' = Inr (Some (Fin 4))"
    by simp_all
  from ttm_contract [OF b, of ?short "''ACME''"] cb vb
  have r2: "\<exists>m. calc_eps_ttm short_stock ''ACME'' 4 = Inl (EPSCalcError m)
        \<and> sublist ''ACME'' m \<and> sublist ''4'' m"
       "\<exists>m. get_net_income short_stock ''ACME'' ''TTM'' = Inl (ValueError m)
        \<and> sublist ''ACME'' m \<and> sublist ''4'' m"
    by simp_all
  from a b r1 r2 show ?thesis by simp
qed

end
